theory Spec2Isabelle
  imports Main "HOL-Library.Word" "HOL-Library.List_Lexorder" "HOL-Library.Sublist"
begin

unbundle bit_operations_syntax


section \<open>TraceQL: the typed values of pkg/traceql/ast.go\<close>

text \<open>
  Modelled from the spec: the declaration of \<open>StaticType\<close> and its methods \<open>isNumeric\<close> and
  \<open>isMatchingOperand\<close> are not in ast.go or ast_validate.go. The constants are the ones the
  two files use (\<open>TypeSpanset\<close>, \<open>TypeAttribute\<close>, \<open>TypeInt\<close>, ...); the two methods follow
  section 3 of the specification.
\<close>

datatype StaticType =
    TypeSpanset | TypeAttribute | TypeInt | TypeFloat | TypeString
  | TypeBoolean | TypeNil | TypeDuration | TypeStatus

definition isNumeric :: "StaticType \<Rightarrow> bool" where
  "isNumeric t = (t = TypeInt \<or> t = TypeFloat \<or> t = TypeDuration)"

definition isMatchingOperand :: "StaticType \<Rightarrow> StaticType \<Rightarrow> bool" where
  "isMatchingOperand t otherT =
     (if t = TypeAttribute \<or> otherT = TypeAttribute then True
      else if t = otherT then True
      else if t = TypeInt \<and> otherT = TypeStatus then True
      else if t = TypeStatus \<and> otherT = TypeInt then True
      else False)"

text \<open>
  Modelled from the spec: the declaration of \<open>Status\<close> is not in the two files. The
  conversion \<open>Status(other.N)\<close> of \<open>Static.Equals\<close> converts a Go \<open>int\<close>, so \<open>Status\<close> is an
  integer type; it is taken to be a Go \<open>int\<close> (64 bits) and the conversion keeps the value.
\<close>

type_synonym Status = "64 word"

definition toStatus :: "64 word \<Rightarrow> Status" where
  "toStatus n = n"

text \<open>
  A Go \<open>float64\<close> is kept as its 64 bits. Go's \<open>==\<close> on floats is the IEEE 754 comparison:
  a NaN equals nothing (not even itself), and the two zeros are equal.
\<close>

type_synonym float64 = "64 word"

definition float64_isNaN :: "float64 \<Rightarrow> bool" where
  "float64_isNaN w =
     (w AND 0x7FF0000000000000 = 0x7FF0000000000000 \<and> w AND 0x000FFFFFFFFFFFFF \<noteq> 0)"

definition float64_isZero :: "float64 \<Rightarrow> bool" where
  "float64_isZero w = (w AND 0x7FFFFFFFFFFFFFFF = 0)"

definition float64_eq :: "float64 \<Rightarrow> float64 \<Rightarrow> bool" where
  "float64_eq a b =
     (\<not> float64_isNaN a \<and> \<not> float64_isNaN b \<and> (a = b \<or> (float64_isZero a \<and> float64_isZero b)))"

text \<open>The struct \<open>Static\<close>: a type tag and one payload slot per kind of value.\<close>

record Static =
  Type :: StaticType
  N :: "64 word"
  F :: float64
  S :: string
  B :: bool
  D :: "64 word"
  Status :: Status

text \<open>Go's \<open>s == other\<close> on the struct: every field compared with its own \<open>==\<close>.\<close>

definition Static_eq :: "Static \<Rightarrow> Static \<Rightarrow> bool" where
  "Static_eq s other =
     (Type s = Type other \<and> N s = N other \<and> float64_eq (F s) (F other) \<and> S s = S other \<and>
      B s = B other \<and> D s = D other \<and> Status s = Status other)"

definition Equals :: "Static \<Rightarrow> Static \<Rightarrow> bool" where
  "Equals s other =
     (let eitherIsTypeStatus =
            ((Type s = TypeStatus \<and> Type other = TypeInt) \<or>
             (Type other = TypeStatus \<and> Type s = TypeInt))
      in if \<not> eitherIsTypeStatus then Static_eq s other
         else if Type s = TypeStatus then Status s = toStatus (N other)
         else toStatus (N s) = Status other)"

text \<open>The constructors; the fields a constructor does not set hold Go's zero values.\<close>

definition zeroStatic :: "StaticType \<Rightarrow> Static" where
  "zeroStatic t = \<lparr>Type = t, N = 0, F = 0, S = [], B = False, D = 0, Status = 0\<rparr>"

definition NewStaticInt :: "64 word \<Rightarrow> Static" where
  "NewStaticInt n = (zeroStatic TypeInt)\<lparr>N := n\<rparr>"

definition NewStaticFloat :: "float64 \<Rightarrow> Static" where
  "NewStaticFloat f = (zeroStatic TypeFloat)\<lparr>F := f\<rparr>"

definition NewStaticString :: "string \<Rightarrow> Static" where
  "NewStaticString s = (zeroStatic TypeString)\<lparr>S := s\<rparr>"

definition NewStaticBool :: "bool \<Rightarrow> Static" where
  "NewStaticBool b = (zeroStatic TypeBoolean)\<lparr>B := b\<rparr>"

definition NewStaticNil :: "Static" where
  "NewStaticNil = zeroStatic TypeNil"

definition NewStaticDuration :: "64 word \<Rightarrow> Static" where
  "NewStaticDuration d = (zeroStatic TypeDuration)\<lparr>D := d\<rparr>"

definition NewStaticStatus :: "Status \<Rightarrow> Static" where
  "NewStaticStatus s = (zeroStatic TypeStatus)\<lparr>Status := s\<rparr>"

section \<open>TraceQL: attributes and field expressions\<close>

text \<open>
  Modelled from the spec: the declarations of \<open>AttributeScope\<close> and \<open>Intrinsic\<close> are not in
  the two files; the constants are the ones ast.go uses and section 3 lists.
\<close>

datatype AttributeScope = AttributeScopeNone | AttributeScopeResource | AttributeScopeSpan

datatype Intrinsic =
    IntrinsicNone | IntrinsicDuration | IntrinsicChildCount | IntrinsicName
  | IntrinsicStatus | IntrinsicParent

record Attribute =
  Scope :: AttributeScope
  Parent :: bool
  Name :: string
  Intrinsic :: Intrinsic

definition Attribute_impliedType :: "Attribute \<Rightarrow> StaticType" where
  "Attribute_impliedType a =
     (case Intrinsic a of
        IntrinsicDuration \<Rightarrow> TypeDuration
      | IntrinsicChildCount \<Rightarrow> TypeInt
      | IntrinsicName \<Rightarrow> TypeString
      | IntrinsicStatus \<Rightarrow> TypeStatus
      | IntrinsicParent \<Rightarrow> TypeNil
      | IntrinsicNone \<Rightarrow> TypeAttribute)"

text \<open>
  The type \<open>Operator\<close> and its methods \<open>isBoolean\<close>, \<open>binaryTypesValid\<close> and
  \<open>unaryTypesValid\<close> are declared outside the two files: the operators are a type parameter
  \<open>'op\<close> and the three methods are the fields of a record every function below receives.
\<close>

record 'op Operators =
  isBoolean :: "'op \<Rightarrow> bool"
  binaryTypesValid :: "'op \<Rightarrow> StaticType \<Rightarrow> StaticType \<Rightarrow> bool"
  unaryTypesValid :: "'op \<Rightarrow> StaticType \<Rightarrow> bool"

text \<open>The implementations of the interface \<open>FieldExpression\<close>.\<close>

datatype 'op FieldExpression =
    BinaryOperation 'op "'op FieldExpression" "'op FieldExpression"
  | UnaryOperation 'op "'op FieldExpression"
  | StaticE Static
  | AttributeE Attribute

fun impliedType :: "'op Operators \<Rightarrow> 'op FieldExpression \<Rightarrow> StaticType" where
  "impliedType ops (BinaryOperation op lhs rhs) =
     (if isBoolean ops op then TypeBoolean
      else (let t = impliedType ops lhs
            in if t \<noteq> TypeAttribute then t else impliedType ops rhs))"
| "impliedType ops (UnaryOperation op e) = impliedType ops e"
| "impliedType ops (StaticE s) = Type s"
| "impliedType ops (AttributeE a) = Attribute_impliedType a"

fun referencesSpan :: "'op FieldExpression \<Rightarrow> bool" where
  "referencesSpan (BinaryOperation op lhs rhs) = (referencesSpan lhs \<or> referencesSpan rhs)"
| "referencesSpan (UnaryOperation op e) = referencesSpan e"
| "referencesSpan (StaticE s) = False"
| "referencesSpan (AttributeE a) = True"

datatype AggregateOp = aggregateCount | aggregateMax | aggregateMin | aggregateSum | aggregateAvg

datatype 'op Aggregate = Aggregate (Aggregate_agg: AggregateOp) (Aggregate_e: "'op FieldExpression option")

datatype 'op GroupOperation = GroupOperation (Expression: "'op FieldExpression")

datatype 'op SpansetFilter = SpansetFilter (filterExpression: "'op FieldExpression")

section \<open>TraceQL: validation (pkg/traceql/ast_validate.go)\<close>

text \<open>
  A validation error carries the node whose \<open>String()\<close> the message of the source ends with.
  Go's \<open>error\<close> result is an option: \<open>None\<close> is \<open>nil\<close>.
\<close>

datatype 'op validateError =
    GroupingMustReferenceSpan "'op GroupOperation"
  | AggregateMustResolveToNumber "'op Aggregate"
  | AggregateMustReferenceSpan "'op Aggregate"
  | SpanFilterMustResolveToBoolean "'op SpansetFilter"
  | BinaryMustOperateOnSameType "'op FieldExpression"
  | IllegalOperationForTypes "'op FieldExpression"
  | IllegalOperationForType "'op FieldExpression"

fun validate :: "'op Operators \<Rightarrow> 'op FieldExpression \<Rightarrow> 'op validateError option" where
  "validate ops (BinaryOperation op lhs rhs) =
     (case validate ops lhs of
        Some err \<Rightarrow> Some err
      | None \<Rightarrow>
          (case validate ops rhs of
             Some err \<Rightarrow> Some err
           | None \<Rightarrow>
               (let lhsT = impliedType ops lhs; rhsT = impliedType ops rhs
                in if \<not> isMatchingOperand lhsT rhsT
                   then Some (BinaryMustOperateOnSameType (BinaryOperation op lhs rhs))
                   else if \<not> binaryTypesValid ops op lhsT rhsT
                   then Some (IllegalOperationForTypes (BinaryOperation op lhs rhs))
                   else None)))"
| "validate ops (UnaryOperation op e) =
     (case validate ops e of
        Some err \<Rightarrow> Some err
      | None \<Rightarrow>
          (let t = impliedType ops e
           in if t = TypeAttribute then None
              else if \<not> unaryTypesValid ops op t
              then Some (IllegalOperationForType (UnaryOperation op e))
              else None))"
| "validate ops (StaticE s) = None"
| "validate ops (AttributeE a) = None"

definition GroupOperation_validate ::
  "'op Operators \<Rightarrow> 'op GroupOperation \<Rightarrow> 'op validateError option" where
  "GroupOperation_validate ops o' =
     (if \<not> referencesSpan (Expression o') then Some (GroupingMustReferenceSpan o')
      else validate ops (Expression o'))"

definition Aggregate_validate ::
  "'op Operators \<Rightarrow> 'op Aggregate \<Rightarrow> 'op validateError option" where
  "Aggregate_validate ops a =
     (case Aggregate_e a of
        None \<Rightarrow> None
      | Some fe \<Rightarrow>
          (case validate ops fe of
             Some err \<Rightarrow> Some err
           | None \<Rightarrow>
               (let t = impliedType ops fe
                in if t \<noteq> TypeAttribute \<and> \<not> isNumeric t
                   then Some (AggregateMustResolveToNumber a)
                   else if \<not> referencesSpan fe then Some (AggregateMustReferenceSpan a)
                   else None)))"

definition Aggregate_impliedType :: "'op Operators \<Rightarrow> 'op Aggregate \<Rightarrow> StaticType" where
  "Aggregate_impliedType ops a =
     (if Aggregate_agg a = aggregateCount \<or> Aggregate_e a = None then TypeInt
      else impliedType ops (the (Aggregate_e a)))"

definition SpansetFilter_validate ::
  "'op Operators \<Rightarrow> 'op SpansetFilter \<Rightarrow> 'op validateError option" where
  "SpansetFilter_validate ops f =
     (case validate ops (filterExpression f) of
        Some err \<Rightarrow> Some err
      | None \<Rightarrow>
          (let t = impliedType ops (filterExpression f)
           in if t \<noteq> TypeAttribute \<and> t \<noteq> TypeBoolean
              then Some (SpanFilterMustResolveToBoolean f)
              else None))"

text \<open>The attributes a field expression mentions, left to right.\<close>

fun attributesOf :: "'op FieldExpression \<Rightarrow> Attribute list" where
  "attributesOf (BinaryOperation op lhs rhs) = attributesOf lhs @ attributesOf rhs"
| "attributesOf (UnaryOperation op e) = attributesOf e"
| "attributesOf (StaticE s) = []"
| "attributesOf (AttributeE a) = [a]"

section \<open>TraceQL: evaluation (pkg/traceql/ast.go)\<close>

text \<open>
  Modelled from the spec: the declarations of \<open>Span\<close> and \<open>Spanset\<close> are not in the two
  files. A span is a value of a type parameter \<open>'sp\<close>; a spanset is its field \<open>Spans\<close>, the
  only field ast.go reads or writes, and one field \<open>Rest\<close> of a type parameter for
  everything else the struct holds ("plus arbitrary metadata", section 3).
\<close>

record ('sp, 'm) Spanset =
  Spans :: "'sp list"
  Rest :: 'm

text \<open>
  The implementations of the interfaces \<open>ScalarExpression\<close> and \<open>pipelineElement\<close>. A
  \<open>SpansetExpression\<close> is a \<open>pipelineElement\<close> with a marker method, so the operands of a
  \<open>SpansetOperation\<close> are pipeline elements here.
\<close>

datatype 'op ScalarExpression =
    ScalarOperationS 'op "'op ScalarExpression" "'op ScalarExpression"
  | AggregateS "'op Aggregate"
  | PipelineS "'op pipelineElement list"
  | StaticS Static
and 'op pipelineElement =
    PipelineP "'op pipelineElement list"
  | SpansetFilterP "'op SpansetFilter"
  | SpansetOperationP 'op "'op pipelineElement" "'op pipelineElement"
  | ScalarFilterP 'op "'op ScalarExpression" "'op ScalarExpression"
  | AggregateP "'op Aggregate"
  | GroupOperationP "'op GroupOperation"
  | CoalesceOperationP

text \<open>
  The method \<open>execute\<close> of the field expressions is declared in the interface
  \<open>FieldExpression\<close> and implemented outside the two files: it is the parameter \<open>execute\<close>
  of the evaluator, a function from the expression and the span to an error (of a type
  parameter \<open>'err\<close>) or a \<open>Static\<close>.
\<close>

type_synonym ('op, 'sp, 'err) executor = "'op FieldExpression \<Rightarrow> 'sp \<Rightarrow> 'err + Static"

text \<open>
  The inner loop of \<open>SpansetFilter.evaluate\<close>: over the spans of one spanset, with the
  slice \<open>matchingSpans\<close> as accumulator.
\<close>

fun matchSpans ::
  "('op, 'sp, 'err) executor \<Rightarrow> 'op SpansetFilter \<Rightarrow> 'sp list \<Rightarrow> 'sp list \<Rightarrow> 'err + 'sp list"
where
  "matchSpans execute f [] matchingSpans = Inr matchingSpans"
| "matchSpans execute f (s # spans) matchingSpans =
     (case execute (filterExpression f) s of
        Inl err \<Rightarrow> Inl err
      | Inr result \<Rightarrow>
          if Type result \<noteq> TypeBoolean then matchSpans execute f spans matchingSpans
          else if \<not> B result then matchSpans execute f spans matchingSpans
          else matchSpans execute f spans (matchingSpans @ [s]))"

text \<open>The outer loop, over the input, with the slice \<open>output\<close> as accumulator.\<close>

fun filterSpansets ::
  "('op, 'sp, 'err) executor \<Rightarrow> 'op SpansetFilter \<Rightarrow> ('sp, 'm) Spanset list \<Rightarrow>
   ('sp, 'm) Spanset list \<Rightarrow> 'err + ('sp, 'm) Spanset list"
where
  "filterSpansets execute f [] output = Inr output"
| "filterSpansets execute f (ss # input) output =
     (if length (Spans ss) = 0 then filterSpansets execute f input output
      else
        (case matchSpans execute f (Spans ss) [] of
           Inl err \<Rightarrow> Inl err
         | Inr matchingSpans \<Rightarrow>
             if length matchingSpans = 0 then filterSpansets execute f input output
             else filterSpansets execute f input (output @ [ss\<lparr>Spans := matchingSpans\<rparr>])))"

definition SpansetFilter_evaluate ::
  "('op, 'sp, 'err) executor \<Rightarrow> 'op SpansetFilter \<Rightarrow> ('sp, 'm) Spanset list \<Rightarrow>
   'err + ('sp, 'm) Spanset list"
where
  "SpansetFilter_evaluate execute f input = filterSpansets execute f input []"

definition GroupOperation_evaluate ::
  "'op GroupOperation \<Rightarrow> ('sp, 'm) Spanset list \<Rightarrow> 'err + ('sp, 'm) Spanset list" where
  "GroupOperation_evaluate g ss = Inr ss"

definition CoalesceOperation_evaluate ::
  "('sp, 'm) Spanset list \<Rightarrow> 'err + ('sp, 'm) Spanset list" where
  "CoalesceOperation_evaluate ss = Inr ss"

definition Aggregate_evaluate ::
  "'op Aggregate \<Rightarrow> ('sp, 'm) Spanset list \<Rightarrow> 'err + ('sp, 'm) Spanset list" where
  "Aggregate_evaluate a ss = Inr ss"

definition ScalarFilter_evaluate ::
  "'op \<Rightarrow> 'op ScalarExpression \<Rightarrow> 'op ScalarExpression \<Rightarrow> ('sp, 'm) Spanset list \<Rightarrow>
   'err + ('sp, 'm) Spanset list" where
  "ScalarFilter_evaluate op lhs rhs ss = Inr ss"

text \<open>
  Modelled from the spec: \<open>SpansetOperation.evaluate\<close> is not in ast.go (the file only
  asserts that \<open>SpansetOperation\<close> is a \<open>pipelineElement\<close>). Section 4.2: "this revision
  implements these as identity on input".
\<close>

definition SpansetOperation_evaluate ::
  "'op \<Rightarrow> 'op pipelineElement \<Rightarrow> 'op pipelineElement \<Rightarrow> ('sp, 'm) Spanset list \<Rightarrow>
   'err + ('sp, 'm) Spanset list" where
  "SpansetOperation_evaluate op lhs rhs ss = Inr ss"

text \<open>
  \<open>evaluate\<close> is the dynamic dispatch \<open>element.evaluate(result)\<close>; \<open>Pipeline_evaluate\<close> is
  the loop of \<open>Pipeline.evaluate\<close> over the elements still to run, with \<open>result\<close> as its
  state. A nil slice and an empty slice are both the empty list.
\<close>

fun evaluate ::
  "('op, 'sp, 'err) executor \<Rightarrow> 'op pipelineElement \<Rightarrow> ('sp, 'm) Spanset list \<Rightarrow>
   'err + ('sp, 'm) Spanset list"
and Pipeline_evaluate ::
  "('op, 'sp, 'err) executor \<Rightarrow> 'op pipelineElement list \<Rightarrow> ('sp, 'm) Spanset list \<Rightarrow>
   'err + ('sp, 'm) Spanset list"
where
  "evaluate execute (PipelineP elements) input = Pipeline_evaluate execute elements input"
| "evaluate execute (SpansetFilterP f) input = SpansetFilter_evaluate execute f input"
| "evaluate execute (SpansetOperationP op lhs rhs) input = SpansetOperation_evaluate op lhs rhs input"
| "evaluate execute (ScalarFilterP op lhs rhs) input = ScalarFilter_evaluate op lhs rhs input"
| "evaluate execute (AggregateP a) input = Aggregate_evaluate a input"
| "evaluate execute (GroupOperationP g) input = GroupOperation_evaluate g input"
| "evaluate execute CoalesceOperationP input = CoalesceOperation_evaluate input"
| "Pipeline_evaluate execute [] result = Inr result"
| "Pipeline_evaluate execute (element # elements) result =
     (case evaluate execute element result of
        Inl err \<Rightarrow> Inl err
      | Inr result' \<Rightarrow>
          if length result' = 0 then Inr []
          else Pipeline_evaluate execute elements result')"

text \<open>
  The elements whose \<open>evaluate\<close> the loop of \<open>Pipeline.evaluate\<close> calls, in the order of
  the calls: the same loop, returning the calls instead of the result.
\<close>

fun Pipeline_evaluated ::
  "('op, 'sp, 'err) executor \<Rightarrow> 'op pipelineElement list \<Rightarrow> ('sp, 'm) Spanset list \<Rightarrow>
   'op pipelineElement list"
where
  "Pipeline_evaluated execute [] result = []"
| "Pipeline_evaluated execute (element # elements) result =
     element #
     (case evaluate execute element result of
        Inl err \<Rightarrow> []
      | Inr result' \<Rightarrow>
          if length result' = 0 then []
          else Pipeline_evaluated execute elements result')"

text \<open>The test of \<open>SpansetFilter.evaluate\<close> on the result of \<open>execute\<close>: a span is kept when
  the result has the type Boolean and its payload \<open>B\<close> is true.\<close>

definition keepsSpan :: "('op, 'sp, 'err) executor \<Rightarrow> 'op SpansetFilter \<Rightarrow> 'sp \<Rightarrow> bool" where
  "keepsSpan execute f s =
     (case execute (filterExpression f) s of
        Inl err \<Rightarrow> False
      | Inr result \<Rightarrow> Type result = TypeBoolean \<and> B result)"


section \<open>Block lookup: tempodb/encoding/vparquet/block_findtracebyid.go\<close>

text \<open>
  A trace id (\<open>common.ID\<close>) is a byte slice. \<open>bytes.Compare\<close> of Go's library compares two
  byte slices lexicographically and returns 0, -1 or +1; the order on lists of
  \<open>HOL-Library.List_Lexorder\<close> is that order.
\<close>

type_synonym ID = "8 word list"

definition bytes_Compare :: "ID \<Rightarrow> ID \<Rightarrow> int" where
  "bytes_Compare a b = (if a = b then 0 else if a < b then - 1 else 1)"

text \<open>
  The errors of \<open>FindTraceByID\<close>. \<open>External\<close> is an error a collaborator returns (the
  backend reader, the bloom library, the parquet library); the wrapping constructors stand
  for the messages the source wraps it in. \<open>Panic\<close> is a run-time panic of Go (a slice or
  index out of range).
\<close>

datatype error =
    External string
  | ErrorRetrievingBloom error
  | ErrorParsingBloom error
  | UnexpectedErrorOpeningParquetFile error
  | UnableToGetIndexForColumn
  | FailedToReadValueFromRowGroup nat
  | ErrorBinarySearchingRowGroups error
  | SeekToRow error
  | ErrorReadingRowFromBackend error
  | Panic

text \<open>The calls \<open>FindTraceByID\<close> makes on its collaborators, in the order it makes them.\<close>

datatype event =
    Read nat
  | OpenForSearch
  | NewColumnIterator nat bool
  | ReaderSeekToRow nat
  | ReaderRead

text \<open>
  A row group of the parquet file: its rows, each with the value of the column
  \<open>TraceID\<close> and the rest of the row, and the error (if any) a column iterator over the row
  group returns from \<open>Next\<close>.
\<close>

record 'row RowGroup =
  rows :: "(ID \<times> 'row) list"
  iterError :: "error option"

definition NumRows :: "'row RowGroup \<Rightarrow> nat" where
  "NumRows rg = length (rows rg)"

text \<open>
  The opened parquet file: its row groups, the result of
  \<open>pq.GetColumnIndexByPath(pf, TraceIDColumnName)\<close> (-1 when the column is absent), and the
  errors (if any) the reader returns from \<open>SeekToRow\<close> and \<open>Read\<close>.
\<close>

record 'row parquetFile =
  RowGroups :: "'row RowGroup list"
  traceIDColumnIndex :: int
  seekError :: "error option"
  readError :: "error option"

text \<open>
  The block: the three fields of \<open>b.meta\<close> the lookup reads, and its collaborators, whose
  code is outside the file: \<open>common.ShardKeyForTraceID\<close>, the reader \<open>b.r.Read\<close> of the bloom
  shard of a shard key, the bloom library (\<open>ReadFrom\<close> the bytes, then \<open>Test\<close>: a parsed
  filter is its membership test), \<open>b.openForSearch\<close> and \<open>parquetTraceToTempopbTrace\<close>.
\<close>

record ('row, 'tr) backendBlock =
  MinID :: ID
  MaxID :: ID
  BloomShardCount :: nat
  ShardKeyForTraceID :: "ID \<Rightarrow> nat \<Rightarrow> nat"
  r_Read :: "nat \<Rightarrow> error + 8 word list"
  bloom_ReadFrom :: "8 word list \<Rightarrow> error + (ID \<Rightarrow> bool)"
  openForSearch :: "error + 'row parquetFile"
  parquetTraceToTempopbTrace :: "ID \<times> 'row \<Rightarrow> 'tr"

definition checkBloom ::
  "('row, 'tr) backendBlock \<Rightarrow> ID \<Rightarrow> event list \<Rightarrow> event list \<times> (error + bool)" where
  "checkBloom b id' evs =
     (let shardKey = ShardKeyForTraceID b id' (BloomShardCount b);
          evs1 = evs @ [Read shardKey]
      in case r_Read b shardKey of
           Inl err \<Rightarrow> (evs1, Inl (ErrorRetrievingBloom err))
         | Inr bloomBytes \<Rightarrow>
             (case bloom_ReadFrom b bloomBytes of
                Inl err \<Rightarrow> (evs1, Inl (ErrorParsingBloom err))
              | Inr filter' \<Rightarrow> (evs1, Inr (filter' id'))))"

text \<open>
  Modelled from the spec: \<open>parquetquery.NewColumnIterator\<close> and
  \<open>parquetquery.NewStringInPredicate\<close> are code of the repository outside the file.
  Sections 4.5 and 6.3: the iterator scans the trace-id column of the row groups it is
  given and emits the rows whose value matches the predicate (every row when there is
  none), with the row number relative to the row groups scanned. \<open>ColumnIterator_Next\<close> is
  the first call of \<open>Next\<close>: the first such row, or nothing.
\<close>

fun firstMatch :: "(ID \<Rightarrow> bool) option \<Rightarrow> (ID \<times> 'row) list \<Rightarrow> nat \<Rightarrow> (nat \<times> ID) option" where
  "firstMatch pred [] rowNumber = None"
| "firstMatch pred (r # rs) rowNumber =
     (if (case pred of None \<Rightarrow> True | Some p \<Rightarrow> p (fst r)) then Some (rowNumber, fst r)
      else firstMatch pred rs (rowNumber + 1))"

fun ColumnIterator_Next ::
  "'row RowGroup list \<Rightarrow> (ID \<Rightarrow> bool) option \<Rightarrow> nat \<Rightarrow> error + (nat \<times> ID) option" where
  "ColumnIterator_Next [] pred rowNumber = Inr None"
| "ColumnIterator_Next (rg # rgs) pred rowNumber =
     (case iterError rg of
        Some err \<Rightarrow> Inl err
      | None \<Rightarrow>
          (case firstMatch pred (rows rg) rowNumber of
             Some res \<Rightarrow> Inr (Some res)
           | None \<Rightarrow> ColumnIterator_Next rgs pred (rowNumber + NumRows rg)))"

definition NewStringInPredicate :: "ID list \<Rightarrow> ID \<Rightarrow> bool" where
  "NewStringInPredicate ids v = (v \<in> set ids)"

text \<open>
  The state of one call: the slice \<open>rowGroupMins\<close>, which the closure \<open>getRowGroupMin\<close>
  reads and writes, and the calls made so far.
\<close>

record searchState =
  rowGroupMins :: "ID list"
  events :: "event list"

text \<open>
  The closure \<open>getRowGroupMin\<close>. An index outside \<open>rowGroupMins\<close> and a slice
  \<open>rgs[rgIdx:rgIdx+1]\<close> outside \<open>rgs\<close> panic.
\<close>

definition getRowGroupMin ::
  "'row parquetFile \<Rightarrow> nat \<Rightarrow> searchState \<Rightarrow> searchState \<times> (error + ID)" where
  "getRowGroupMin pf rgIdx st =
     (if length (rowGroupMins st) \<le> rgIdx then (st, Inl Panic)
      else
        (let min' = rowGroupMins st ! rgIdx
         in if length min' > 0 then (st, Inr min')
            else if length (RowGroups pf) < rgIdx + 1 then (st, Inl Panic)
            else
              (let st1 = st\<lparr>events := events st @ [NewColumnIterator rgIdx False]\<rparr>
               in case ColumnIterator_Next (take 1 (drop rgIdx (RowGroups pf))) None 0 of
                    Inl err \<Rightarrow> (st1, Inl err)
                  | Inr None \<Rightarrow> (st1, Inl (FailedToReadValueFromRowGroup rgIdx))
                  | Inr (Some res) \<Rightarrow>
                      (st1\<lparr>rowGroupMins := (rowGroupMins st1)[rgIdx := snd res]\<rparr>,
                       Inr (snd res)))))"

text \<open>The comparator closure that \<open>FindTraceByID\<close> passes to \<open>binarySearch\<close>.\<close>

definition compareRowGroup ::
  "'row parquetFile \<Rightarrow> ID \<Rightarrow> nat \<Rightarrow> nat \<Rightarrow> searchState \<Rightarrow> searchState \<times> (error + int)" where
  "compareRowGroup pf traceID numRowGroups rgIdx st =
     (case getRowGroupMin pf rgIdx st of
        (st1, Inl err) \<Rightarrow> (st1, Inl err)
      | (st1, Inr min') \<Rightarrow>
          (let check = bytes_Compare traceID min'
           in if check \<le> 0 then (st1, Inr check)
              else
                (case getRowGroupMin pf (rgIdx + 1) st1 of
                   (st2, Inl err) \<Rightarrow> (st2, Inl err)
                 | (st2, Inr max') \<Rightarrow>
                     (let check = bytes_Compare traceID max'
                      in if check > 0 \<or> (check = 0 \<and> int rgIdx < int numRowGroups - 1)
                         then (st2, Inr 1)
                         else (st2, Inr 0)))))"

text \<open>
  \<open>binarySearch\<close>: the loop on \<open>i\<close> and \<open>j\<close>, with the state the comparator threads. The
  middle \<open>h\<close> is \<open>int(uint(i+j) >> 1)\<close>; \<open>i\<close> and \<open>j\<close> stay between 0 and the length of a
  slice, so the sum does not wrap. A comparator result other than 0, -1 and 1 matches no
  case of the \<open>switch\<close> and the loop goes round with \<open>i\<close> and \<open>j\<close> unchanged: the function
  is partial, and \<open>None\<close> is a search that does not return.
\<close>

partial_function (option) binarySearch_loop ::
  "(nat \<Rightarrow> 'st \<Rightarrow> 'st \<times> (error + int)) \<Rightarrow> nat \<Rightarrow> nat \<Rightarrow> 'st \<Rightarrow> ('st \<times> (error + int)) option"
where
  "binarySearch_loop compare i j st =
     (if i < j then
        (let h = (i + j) div 2
         in case compare h st of
              (st1, Inl err) \<Rightarrow> Some (st1, Inl err)
            | (st1, Inr c) \<Rightarrow>
                if c = 0 then Some (st1, Inr (int h))
                else if c = - 1 then binarySearch_loop compare i h st1
                else if c = 1 then binarySearch_loop compare (h + 1) j st1
                else binarySearch_loop compare i j st1)
      else Some (st, Inr (- 1)))"

definition binarySearch ::
  "nat \<Rightarrow> (nat \<Rightarrow> 'st \<Rightarrow> 'st \<times> (error + int)) \<Rightarrow> 'st \<Rightarrow> ('st \<times> (error + int)) option" where
  "binarySearch n compare st = binarySearch_loop compare 0 n st"

text \<open>
  The reader of the parquet library over the whole file: \<open>SeekToRow\<close>, then \<open>Read\<close> of the
  row at that position (an error past the last row).
\<close>

definition allRows :: "'row parquetFile \<Rightarrow> (ID \<times> 'row) list" where
  "allRows pf = concat (map rows (RowGroups pf))"

definition Reader_Read :: "'row parquetFile \<Rightarrow> nat \<Rightarrow> error + (ID \<times> 'row)" where
  "Reader_Read pf row =
     (case readError pf of
        Some err \<Rightarrow> Inl err
      | None \<Rightarrow> if row < length (allRows pf) then Inr (allRows pf ! row) else Inl (External ''EOF''))"

text \<open>
  \<open>FindTraceByID\<close>. The result is \<open>None\<close> when the search does not return; otherwise the
  calls made and the pair of the source: an error, or the trace (\<open>None\<close> is the nil trace).
  The row counts are \<open>int64\<close> in the source; the sum is taken not to wrap.
\<close>

definition FindTraceByID ::
  "('row, 'tr) backendBlock \<Rightarrow> ID \<Rightarrow> (event list \<times> (error + 'tr option)) option" where
  "FindTraceByID b traceID =
     (case checkBloom b traceID [] of
        (evs, Inl err) \<Rightarrow> Some (evs, Inl err)
      | (evs, Inr found) \<Rightarrow>
          if \<not> found then Some (evs, Inr None)
          else
            (let evs1 = evs @ [OpenForSearch]
             in case openForSearch b of
                  Inl err \<Rightarrow> Some (evs1, Inl (UnexpectedErrorOpeningParquetFile err))
                | Inr pf \<Rightarrow>
                    if traceIDColumnIndex pf = - 1 then Some (evs1, Inl UnableToGetIndexForColumn)
                    else
                      (let numRowGroups = length (RowGroups pf);
                           mins0 = (replicate (numRowGroups + 1) [])
                                     [0 := MinID b, numRowGroups := MaxID b]
                       in case binarySearch numRowGroups (compareRowGroup pf traceID numRowGroups)
                                 \<lparr>rowGroupMins = mins0, events = evs1\<rparr> of
                            None \<Rightarrow> None
                          | Some (st, Inl err) \<Rightarrow>
                              Some (events st, Inl (ErrorBinarySearchingRowGroups err))
                          | Some (st, Inr rowGroup) \<Rightarrow>
                              if rowGroup = - 1 then Some (events st, Inr None)
                              else if rowGroup < 0 \<or> int numRowGroups < rowGroup + 1
                              then Some (events st, Inl Panic)
                              else
                                (let evs2 = events st @ [NewColumnIterator (nat rowGroup) True]
                                 in case ColumnIterator_Next
                                           (take 1 (drop (nat rowGroup) (RowGroups pf)))
                                           (Some (NewStringInPredicate [traceID])) 0 of
                                      Inl err \<Rightarrow> Some (evs2, Inl err)
                                    | Inr None \<Rightarrow> Some (evs2, Inr None)
                                    | Inr (Some res) \<Rightarrow>
                                        (let rowMatch =
                                               sum_list (map NumRows (take (nat rowGroup) (RowGroups pf)))
                                               + fst res;
                                             evs3 = evs2 @ [ReaderSeekToRow rowMatch]
                                         in case seekError pf of
                                              Some err \<Rightarrow> Some (evs3, Inl (SeekToRow err))
                                            | None \<Rightarrow>
                                                (case Reader_Read pf rowMatch of
                                                   Inl err \<Rightarrow>
                                                     Some (evs3 @ [ReaderRead],
                                                           Inl (ErrorReadingRowFromBackend err))
                                                 | Inr tr \<Rightarrow>
                                                     Some (evs3 @ [ReaderRead],
                                                           Inr (Some (parquetTraceToTempopbTrace b tr)))))))))"

section \<open>Example inputs\<close>

definition exampleOperators :: "unit Operators" where
  "exampleOperators =
     \<lparr>isBoolean = (\<lambda>op. True), binaryTypesValid = (\<lambda>op l r. True), unaryTypesValid = (\<lambda>op t. True)\<rparr>"

definition exampleMismatch :: "unit FieldExpression" where
  "exampleMismatch = BinaryOperation () (StaticE (NewStaticInt 1)) (StaticE (NewStaticString ''a''))"

definition exampleAttribute :: "unit FieldExpression" where
  "exampleAttribute =
     AttributeE \<lparr>Scope = AttributeScopeNone, Parent = False, Name = ''x'', Intrinsic = IntrinsicNone\<rparr>"

definition exampleExecute :: "(unit, nat, string) executor" where
  "exampleExecute fe s =
     (if s = 0 then Inl ''execute failed''
      else if s = 1 then Inr (NewStaticBool True)
      else if s = 2 then Inr (NewStaticInt 1)
      else if s = 3 then Inr (NewStaticBool False)
      else (case fe of StaticE v \<Rightarrow> Inr v | _ \<Rightarrow> Inr NewStaticNil))"

definition exampleFilter :: "unit SpansetFilter" where
  "exampleFilter = SpansetFilter exampleAttribute"

definition exampleInput :: "(nat, string) Spanset list" where
  "exampleInput =
     [\<lparr>Spans = [], Rest = ''a''\<rparr>, \<lparr>Spans = [1, 2, 3, 1], Rest = ''b''\<rparr>,
      \<lparr>Spans = [3, 2], Rest = ''c''\<rparr>, \<lparr>Spans = [2, 1], Rest = ''d''\<rparr>]"

definition examplePipeline :: "unit pipelineElement list" where
  "examplePipeline =
     [SpansetFilterP (SpansetFilter (StaticE (NewStaticBool False))),
      AggregateP (Aggregate aggregateCount None)]"

definition exampleSpansets :: "(nat, string) Spanset list" where
  "exampleSpansets = [\<lparr>Spans = [4, 5], Rest = ''a''\<rparr>, \<lparr>Spans = [0], Rest = ''b''\<rparr>]"

section \<open>TraceQL: the evaluator\<close>

subsection \<open>The loops of the span filter\<close>

lemma matchSpans_filter:
  "\<forall>s\<in>set spans. \<exists>r. execute (filterExpression f) s = Inr r \<Longrightarrow>
   matchSpans execute f spans acc = Inr (acc @ filter (keepsSpan execute f) spans)"
  by (induction spans arbitrary: acc) (auto simp: keepsSpan_def)

lemma filterSpansets_map:
  "\<forall>ss\<in>set input. \<forall>s\<in>set (Spans ss). \<exists>r. execute (filterExpression f) s = Inr r \<Longrightarrow>
   filterSpansets execute f input out =
     Inr (out @ map (\<lambda>ss. ss\<lparr>Spans := filter (keepsSpan execute f) (Spans ss)\<rparr>)
            (filter (\<lambda>ss. filter (keepsSpan execute f) (Spans ss) \<noteq> []) input))"
proof (induction input arbitrary: out)
  case Nil
  then show ?case by simp
next
  case (Cons ss input)
  have m: "matchSpans execute f (Spans ss) [] = Inr (filter (keepsSpan execute f) (Spans ss))"
    using matchSpans_filter [where spans = "Spans ss" and execute = execute and f = f and acc = "[]"] Cons.prems by simp
  have r: "\<forall>ss\<in>set input. \<forall>s\<in>set (Spans ss). \<exists>r. execute (filterExpression f) s = Inr r"
    using Cons.prems by simp
  show ?case
    using Cons.IH [where out = out, OF r] Cons.IH [where out = "out @ [ss\<lparr>Spans := filter (keepsSpan execute f) (Spans ss)\<rparr>]", OF r] m by auto
qed

lemma matchSpans_error:
  "matchSpans execute f spans acc = Inl err \<Longrightarrow> \<exists>s\<in>set spans. execute (filterExpression f) s = Inl err"
  by (induction spans arbitrary: acc) (auto split: sum.splits if_splits)

lemma filterSpansets_error:
  "filterSpansets execute f input out = Inl err \<Longrightarrow>
   \<exists>ss\<in>set input. \<exists>s\<in>set (Spans ss). execute (filterExpression f) s = Inl err"
  by (induction input arbitrary: out) (auto split: sum.splits if_splits dest: matchSpans_error)

subsection \<open>The pipeline loop\<close>

lemma evaluate_error:
  "(evaluate execute el (input :: ('sp, 'm) Spanset list) = Inl err \<longrightarrow> (\<exists>fe s. execute fe s = Inl err))"
  "(Pipeline_evaluate execute els (input :: ('sp, 'm) Spanset list) = Inl err \<longrightarrow> (\<exists>fe s. execute fe s = Inl err))"
proof (induction execute el input and execute els input rule: evaluate_Pipeline_evaluate.induct)
  case (2 execute f input)
  then show ?case
    by (auto simp: SpansetFilter_evaluate_def dest!: filterSpansets_error)
next
  case (9 execute element elements result)
  then show ?case by (auto split: sum.splits if_splits)
qed (auto simp: SpansetOperation_evaluate_def ScalarFilter_evaluate_def Aggregate_evaluate_def
      GroupOperation_evaluate_def CoalesceOperation_evaluate_def)

lemma Pipeline_evaluate_append:
  "Pipeline_evaluate execute (es1 @ es2) input =
     (case Pipeline_evaluate execute es1 input of
        Inl err \<Rightarrow> Inl err
      | Inr r \<Rightarrow> if es1 \<noteq> [] \<and> r = [] then Inr [] else Pipeline_evaluate execute es2 r)"
proof (induction es1 arbitrary: input)
  case Nil
  then show ?case by simp
next
  case (Cons a es1)
  then show ?case by (auto split: sum.splits)
qed

lemma Pipeline_evaluated_append:
  "Pipeline_evaluated execute (es1 @ es2) input =
     Pipeline_evaluated execute es1 input @
     (case Pipeline_evaluate execute es1 input of
        Inl err \<Rightarrow> []
      | Inr r \<Rightarrow> if es1 \<noteq> [] \<and> r = [] then [] else Pipeline_evaluated execute es2 r)"
proof (induction es1 arbitrary: input)
  case Nil
  then show ?case by simp
next
  case (Cons a es1)
  then show ?case by (auto split: sum.splits)
qed

subsection \<open>The span filter\<close>

text \<open>
  Claim C4. When \<open>execute\<close> fails on no span of the input, \<open>SpansetFilter.evaluate\<close> returns,
  in the order of the input, a copy of each spanset restricted to the spans it keeps, for
  the spansets that keep at least one span; a span is kept exactly when the result of
  \<open>execute\<close> has the type Boolean and the payload true, so a spanset with no spans is
  skipped and a result of another type drops the span. Every spanset of the output has at
  least one span, has the other fields of a spanset of the input, and its spans are a
  subsequence of that spanset's spans: no span is made up and none is repeated.
\<close>

theorem SpansetFilter_evaluate_keeps_matching:
  assumes "\<forall>ss\<in>set input. \<forall>s\<in>set (Spans ss). \<exists>r. execute (filterExpression f) s = Inr r"
  shows "SpansetFilter_evaluate execute f input =
           Inr (map (\<lambda>ss. ss\<lparr>Spans := filter (keepsSpan execute f) (Spans ss)\<rparr>)
                  (filter (\<lambda>ss. filter (keepsSpan execute f) (Spans ss) \<noteq> []) input))
         \<and> (\<forall>out. SpansetFilter_evaluate execute f input = Inr out \<longrightarrow>
               subseq (map Rest out) (map Rest input) \<and>
               (\<forall>ms\<in>set out. Spans ms \<noteq> [] \<and>
                  (\<exists>ss\<in>set input. Rest ms = Rest ss \<and> subseq (Spans ms) (Spans ss)) \<and>
                  (\<forall>s\<in>set (Spans ms). \<exists>r. execute (filterExpression f) s = Inr r \<and>
                      Type r = TypeBoolean \<and> B r)))"
proof -
  let ?keep = "keepsSpan execute f"
  let ?kept = "map (\<lambda>ss. ss\<lparr>Spans := filter ?keep (Spans ss)\<rparr>)
                 (filter (\<lambda>ss. filter ?keep (Spans ss) \<noteq> []) input)"
  have eq: "SpansetFilter_evaluate execute f input = Inr ?kept"
    using filterSpansets_map [where execute = execute and f = f and input = input and out = "[]", OF assms] by (simp add: SpansetFilter_evaluate_def)
  have rest: "map Rest ?kept = filter (\<lambda>m. True) (map Rest (filter (\<lambda>ss. filter ?keep (Spans ss) \<noteq> []) input))"
    by (simp add: comp_def)
  have sub: "subseq (map Rest ?kept) (map Rest input)"
    unfolding rest by (simp add: subseq_map)
  have each: "\<forall>ms\<in>set ?kept. Spans ms \<noteq> [] \<and>
                  (\<exists>ss\<in>set input. Rest ms = Rest ss \<and> subseq (Spans ms) (Spans ss)) \<and>
                  (\<forall>s\<in>set (Spans ms). \<exists>r. execute (filterExpression f) s = Inr r \<and>
                      Type r = TypeBoolean \<and> B r)"
    by (auto simp: keepsSpan_def split: sum.splits)
  show ?thesis using eq sub each by simp
qed

text \<open>The filter on four spansets: one empty, one keeping two spans, one keeping none, one
  keeping one.\<close>

theorem SpansetFilter_evaluate_keeps_matching_witness:
  "SpansetFilter_evaluate exampleExecute exampleFilter exampleInput =
     Inr [\<lparr>Spans = [1, 1], Rest = ''b''\<rparr>, \<lparr>Spans = [1], Rest = ''d''\<rparr>]"
proof -
  have h: "\<forall>ss\<in>set exampleInput. \<forall>s\<in>set (Spans ss).
             \<exists>r. exampleExecute (filterExpression exampleFilter) s = Inr r"
    by (simp add: exampleInput_def exampleExecute_def)
  show ?thesis
    using SpansetFilter_evaluate_keeps_matching
      [where execute = exampleExecute and f = exampleFilter and input = exampleInput, OF h]
    by (simp add: exampleInput_def exampleExecute_def keepsSpan_def NewStaticBool_def
        NewStaticInt_def zeroStatic_def)
qed

subsection \<open>The pipeline\<close>

text \<open>
  Claim C5. \<open>Pipeline.evaluate\<close> with no elements returns its input; with one element it is
  that element's \<open>evaluate\<close>; and on \<open>es1 @ es2\<close> it runs \<open>es1\<close> first and feeds its
  result to \<open>es2\<close>, unless \<open>es1\<close> failed (the error is returned) or \<open>es1\<close> has an element
  and returned the empty list (the empty list is returned). In that last case no element
  of \<open>es2\<close> is evaluated: the calls made are the calls of \<open>es1\<close>.
\<close>

theorem Pipeline_evaluate_left_to_right:
  "Pipeline_evaluate execute [] input = Inr input
   \<and> Pipeline_evaluate execute [element] input = evaluate execute element input
   \<and> Pipeline_evaluate execute (es1 @ es2) input =
       (case Pipeline_evaluate execute es1 input of
          Inl err \<Rightarrow> Inl err
        | Inr r \<Rightarrow> if es1 \<noteq> [] \<and> r = [] then Inr [] else Pipeline_evaluate execute es2 r)
   \<and> (es1 \<noteq> [] \<and> Pipeline_evaluate execute es1 input = Inr [] \<longrightarrow>
        Pipeline_evaluate execute (es1 @ es2) input = Inr [] \<and>
        Pipeline_evaluated execute (es1 @ es2) input = Pipeline_evaluated execute es1 input)"
proof -
  have one: "Pipeline_evaluate execute [element] input = evaluate execute element input"
    by (cases "evaluate execute element input") auto
  have app: "Pipeline_evaluate execute (es1 @ es2) input =
       (case Pipeline_evaluate execute es1 input of
          Inl err \<Rightarrow> Inl err
        | Inr r \<Rightarrow> if es1 \<noteq> [] \<and> r = [] then Inr [] else Pipeline_evaluate execute es2 r)"
    by (rule Pipeline_evaluate_append)
  have cut: "es1 \<noteq> [] \<and> Pipeline_evaluate execute es1 input = Inr [] \<longrightarrow>
        Pipeline_evaluate execute (es1 @ es2) input = Inr [] \<and>
        Pipeline_evaluated execute (es1 @ es2) input = Pipeline_evaluated execute es1 input"
    by (simp add: Pipeline_evaluate_append Pipeline_evaluated_append)
  show ?thesis using one app cut by simp
qed

text \<open>The pipeline of a filter on the literal false and a count: the filter empties the
  input and the aggregate is not evaluated.\<close>

theorem Pipeline_evaluate_left_to_right_witness:
  "Pipeline_evaluate exampleExecute examplePipeline [\<lparr>Spans = [4, 5], Rest = ''a''\<rparr>] = Inr []
   \<and> Pipeline_evaluated exampleExecute examplePipeline [\<lparr>Spans = [4, 5], Rest = ''a''\<rparr>]
       = [SpansetFilterP (SpansetFilter (StaticE (NewStaticBool False)))]"
  using Pipeline_evaluate_left_to_right
    [of exampleExecute "[\<lparr>Spans = [4, 5], Rest = ''a''\<rparr>]"
        "SpansetFilterP (SpansetFilter (StaticE (NewStaticBool False)))"
        "[SpansetFilterP (SpansetFilter (StaticE (NewStaticBool False)))]"
        "[AggregateP (Aggregate aggregateCount None)]"]
  by (simp add: examplePipeline_def SpansetFilter_evaluate_def exampleExecute_def
      NewStaticBool_def zeroStatic_def)

subsection \<open>The elements that do nothing yet\<close>

text \<open>
  Claim C6. The \<open>evaluate\<close> of an \<open>Aggregate\<close>, a \<open>GroupOperation\<close>, a
  \<open>ScalarFilter\<close>, a \<open>CoalesceOperation\<close> and a \<open>SpansetOperation\<close> returns its input,
  and no error.
\<close>

theorem stub_evaluate_identity:
  "evaluate execute (AggregateP a) ss = Inr ss
   \<and> evaluate execute (GroupOperationP g) ss = Inr ss
   \<and> evaluate execute (ScalarFilterP op sl sr) ss = Inr ss
   \<and> evaluate execute CoalesceOperationP ss = Inr ss
   \<and> evaluate execute (SpansetOperationP op l r) ss = Inr ss"
  by (simp add: Aggregate_evaluate_def GroupOperation_evaluate_def ScalarFilter_evaluate_def
      CoalesceOperation_evaluate_def SpansetOperation_evaluate_def)

subsection \<open>Equality of typed values\<close>

text \<open>
  Claim C7. \<open>Static.Equals\<close> holds of \<open>Int(n)\<close> and \<open>Status(n)\<close> in both orders; of a
  value of type Int and one of type Status it compares the integer with the status; of
  every other pair it holds exactly when the type tags and all the payloads are equal,
  field by field (the floats by Go's \<open>==\<close>).
\<close>

theorem Equals_Int_Status:
  "Equals (NewStaticInt n) (NewStaticStatus (toStatus n))
   \<and> Equals (NewStaticStatus (toStatus n)) (NewStaticInt n)
   \<and> (Type s = TypeInt \<and> Type other = TypeStatus \<longrightarrow>
        Equals s other = (toStatus (N s) = Status other))
   \<and> (Type s = TypeStatus \<and> Type other = TypeInt \<longrightarrow>
        Equals s other = (Status s = toStatus (N other)))
   \<and> (\<not> (Type s = TypeInt \<and> Type other = TypeStatus) \<and>
       \<not> (Type s = TypeStatus \<and> Type other = TypeInt) \<longrightarrow>
        Equals s other =
          (Type s = Type other \<and> N s = N other \<and> float64_eq (F s) (F other) \<and>
           S s = S other \<and> B s = B other \<and> D s = D other \<and> Status s = Status other))"
  by (auto simp: Equals_def Static_eq_def NewStaticInt_def NewStaticStatus_def zeroStatic_def
      Let_def)

theorem Equals_Int_Status_witness:
  "Equals (NewStaticInt 2) (NewStaticStatus 2) \<and> \<not> Equals (NewStaticInt 2) (NewStaticStatus 1)
   \<and> Equals (NewStaticString ''a'') (NewStaticString ''a'')
   \<and> \<not> Equals (NewStaticInt 0) (NewStaticNil)
   \<and> \<not> Equals (NewStaticFloat 0x7FF8000000000000) (NewStaticFloat 0x7FF8000000000000)"
  using Equals_Int_Status [of 2 "NewStaticInt 2" "NewStaticStatus 1"]
    Equals_Int_Status [of 2 "NewStaticString ''a''" "NewStaticString ''a''"]
    Equals_Int_Status [of 2 "NewStaticInt 0" "NewStaticNil"]
    Equals_Int_Status [of 2 "NewStaticFloat 0x7FF8000000000000" "NewStaticFloat 0x7FF8000000000000"]
  by (simp add: NewStaticInt_def NewStaticStatus_def NewStaticString_def NewStaticNil_def
      NewStaticFloat_def zeroStatic_def toStatus_def float64_eq_def float64_isNaN_def
      float64_isZero_def)

subsection \<open>Errors of the evaluator\<close>

text \<open>
  Claim C8. As the claim has it, a cancelled token makes the evaluation return an error.
  \<open>Pipeline.evaluate\<close> and \<open>SpansetFilter.evaluate\<close> take the input and nothing else: no
  token is among their arguments. The evaluation below returns its result whatever the
  state of a token its caller holds.
\<close>

theorem evaluate_no_cancellation_counterexample:
  "Pipeline_evaluate exampleExecute [SpansetFilterP exampleFilter, CoalesceOperationP]
     [\<lparr>Spans = [1, 2], Rest = ''a''\<rparr>, \<lparr>Spans = [3, 1], Rest = ''b''\<rparr>]
   = Inr [\<lparr>Spans = [1], Rest = ''a''\<rparr>, \<lparr>Spans = [1], Rest = ''b''\<rparr>]"
  by (simp add: SpansetFilter_evaluate_def exampleExecute_def exampleFilter_def
      NewStaticBool_def NewStaticInt_def zeroStatic_def CoalesceOperation_evaluate_def)

text \<open>
  Claim C8. (as amended) The evaluator takes no cancellation token and checks none: an error of
  \<open>Pipeline.evaluate\<close> or of \<open>SpansetFilter.evaluate\<close> is an error that \<open>execute\<close> returned
  on a field expression and a span, unchanged; when \<open>execute\<close> never fails the evaluation
  returns a result.
\<close>

theorem evaluate_errors_come_from_execute:
  "(Pipeline_evaluate execute elements input = Inl err \<longrightarrow> (\<exists>fe s. execute fe s = Inl err))
   \<and> (SpansetFilter_evaluate execute f input = Inl err \<longrightarrow>
        (\<exists>ss\<in>set input. \<exists>s\<in>set (Spans ss). execute (filterExpression f) s = Inl err))
   \<and> ((\<forall>fe s. \<exists>r. execute fe s = Inr r) \<longrightarrow>
        (\<exists>out. Pipeline_evaluate execute elements input = Inr out))"
proof -
  have a: "Pipeline_evaluate execute elements input = Inl err \<longrightarrow> (\<exists>fe s. execute fe s = Inl err)"
    by (rule evaluate_error(2))
  have b: "SpansetFilter_evaluate execute f input = Inl err \<longrightarrow>
        (\<exists>ss\<in>set input. \<exists>s\<in>set (Spans ss). execute (filterExpression f) s = Inl err)"
    by (auto simp: SpansetFilter_evaluate_def dest!: filterSpansets_error)
  have c: "(\<forall>fe s. \<exists>r. execute fe s = Inr r) \<longrightarrow>
        (\<exists>out. Pipeline_evaluate execute elements input = Inr out)"
  proof
    assume ok: "\<forall>fe s. \<exists>r. execute fe s = Inr r"
    show "\<exists>out. Pipeline_evaluate execute elements input = Inr out"
    proof (cases "Pipeline_evaluate execute elements input")
      case (Inl e')
      then obtain fe s where "execute fe s = Inl e'"
        using evaluate_error(2) [of execute elements input e'] by blast
      with ok show ?thesis by (metis sum.distinct(1))
    next
      case (Inr out)
      then show ?thesis by blast
    qed
  qed
  show ?thesis using a b c by blast
qed

theorem evaluate_errors_come_from_execute_witness:
  "Pipeline_evaluate exampleExecute [CoalesceOperationP, SpansetFilterP exampleFilter] exampleSpansets
     = Inl ''execute failed''
   \<and> exampleExecute (filterExpression exampleFilter) 0 = Inl ''execute failed''"
  using evaluate_errors_come_from_execute
    [of exampleExecute "[CoalesceOperationP, SpansetFilterP exampleFilter]" exampleSpansets
        "''execute failed''" exampleFilter]
  by (simp add: SpansetFilter_evaluate_def exampleExecute_def exampleFilter_def exampleSpansets_def
      NewStaticNil_def zeroStatic_def CoalesceOperation_evaluate_def exampleAttribute_def)

section \<open>TraceQL: the validator\<close>

lemma referencesSpan_attributesOf: "referencesSpan fe = (attributesOf fe \<noteq> [])"
  by (induction fe) auto

text \<open>
  Claim C9. As the claim has it, a \<open>GroupOperation\<close> whose field expression is invalid
  returns the field expression's error. The operation on an integer and a string is
  invalid (its operands do not match) and mentions no attribute: \<open>GroupOperation.validate\<close>
  returns the error that grouping must reference the span.
\<close>

theorem GroupOperation_validate_field_error_counterexample:
  "validate exampleOperators exampleMismatch = Some (BinaryMustOperateOnSameType exampleMismatch)
   \<and> GroupOperation_validate exampleOperators (GroupOperation exampleMismatch)
       = Some (GroupingMustReferenceSpan (GroupOperation exampleMismatch))
   \<and> GroupOperation_validate exampleOperators (GroupOperation exampleMismatch)
       \<noteq> validate exampleOperators exampleMismatch"
  by (simp add: GroupOperation_validate_def exampleMismatch_def NewStaticInt_def
      NewStaticString_def zeroStatic_def isMatchingOperand_def)

text \<open>
  Claim C9. (as amended) \<open>GroupOperation.validate\<close> first requires the field expression to
  reference the span and then validates it: for a field expression that mentions no
  attribute it returns the error that grouping must reference the span, whether the
  expression is valid or not; for one that mentions an attribute it returns what the
  validation of the field expression returns.
\<close>

theorem GroupOperation_validate_references_first:
  "(attributesOf fe = [] \<longrightarrow>
      GroupOperation_validate ops (GroupOperation fe)
        = Some (GroupingMustReferenceSpan (GroupOperation fe)))
   \<and> (attributesOf fe \<noteq> [] \<longrightarrow>
      GroupOperation_validate ops (GroupOperation fe) = validate ops fe)"
  by (simp add: GroupOperation_validate_def referencesSpan_attributesOf)

theorem GroupOperation_validate_references_first_witness:
  "GroupOperation_validate exampleOperators (GroupOperation exampleMismatch)
     = Some (GroupingMustReferenceSpan (GroupOperation exampleMismatch))
   \<and> GroupOperation_validate exampleOperators
        (GroupOperation (BinaryOperation () exampleAttribute exampleMismatch))
     = Some (BinaryMustOperateOnSameType exampleMismatch)
   \<and> GroupOperation_validate exampleOperators (GroupOperation exampleAttribute) = None"
  using GroupOperation_validate_references_first [of exampleMismatch exampleOperators]
    GroupOperation_validate_references_first
      [of "BinaryOperation () exampleAttribute exampleMismatch" exampleOperators]
    GroupOperation_validate_references_first [of exampleAttribute exampleOperators]
  by (simp add: exampleMismatch_def exampleAttribute_def NewStaticInt_def
      NewStaticString_def zeroStatic_def isMatchingOperand_def)

text \<open>
  Claim C10. An \<open>Aggregate\<close> with no field expression is valid whatever its operation,
  and its implied type is Int.
\<close>

theorem Aggregate_nil_expression:
  "Aggregate_validate ops (Aggregate op None) = None
   \<and> Aggregate_impliedType ops (Aggregate op None) = TypeInt"
  by (simp add: Aggregate_validate_def Aggregate_impliedType_def)

end
